theory Spec2Isabelle
  imports Main
begin

section \<open>Exceptions\<close>

text \<open>
  The exceptions the modelled code can meet. \<open>OSError\<close> stands for itself and for
  \<open>IOError\<close>, which Python 3 defines as the same class; \<open>UnicodeDecodeError\<close> is what
  reading a file that is not valid text raises (a \<open>ValueError\<close> that is not a
  \<open>JSONDecodeError\<close>).
\<close>

datatype py_error =
    IndexError | KeyError | TypeError | AttributeError
  | JSONDecodeError | OSError | UnicodeDecodeError

section \<open>Python strings\<close>

text \<open>
  A Python \<open>str\<close> is modelled as a HOL \<open>string\<close>. Case conversion and whitespace follow
  the ASCII range, which is where CVE identifiers, source names and distribution names
  live; a character outside that range is neither a letter nor whitespace here.
\<close>

definition upper_char :: "char \<Rightarrow> char" where
  "upper_char c =
     (case map_of (zip ''abcdefghijklmnopqrstuvwxyz'' ''ABCDEFGHIJKLMNOPQRSTUVWXYZ'') c of
        None \<Rightarrow> c | Some u \<Rightarrow> u)"

definition lower_char :: "char \<Rightarrow> char" where
  "lower_char c =
     (case map_of (zip ''ABCDEFGHIJKLMNOPQRSTUVWXYZ'' ''abcdefghijklmnopqrstuvwxyz'') c of
        None \<Rightarrow> c | Some l \<Rightarrow> l)"

text \<open>\<open>s.upper()\<close> and \<open>s.lower()\<close>.\<close>

definition upper :: "string \<Rightarrow> string" where
  "upper s = map upper_char s"

definition lower :: "string \<Rightarrow> string" where
  "lower s = map lower_char s"

text \<open>\<open>s.startswith(p)\<close>, \<open>s.endswith(p)\<close> and the substring test \<open>p in s\<close>.\<close>

definition startswith :: "string \<Rightarrow> string \<Rightarrow> bool" where
  "startswith s p = (take (length p) s = p)"

definition endswith :: "string \<Rightarrow> string \<Rightarrow> bool" where
  "endswith s p = (length p \<le> length s \<and> drop (length s - length p) s = p)"

fun str_contains :: "string \<Rightarrow> string \<Rightarrow> bool" where
  "str_contains [] p = (p = [])"
| "str_contains (c # cs) p = (startswith (c # cs) p \<or> str_contains cs p)"

text \<open>
  \<open>s.split()\<close> with no argument: the tokens between runs of whitespace, none of them
  empty. The whitespace characters are tab, line feed, vertical tab, form feed, carriage
  return, the four separators 0x1C to 0x1F and the space.
\<close>

definition is_space :: "char \<Rightarrow> bool" where
  "is_space c = (c \<in> set [CHR 0x09, CHR 0x0A, CHR 0x0B, CHR 0x0C, CHR 0x0D,
                          CHR 0x1C, CHR 0x1D, CHR 0x1E, CHR 0x1F, CHR 0x20])"

fun split_ws :: "string \<Rightarrow> string \<Rightarrow> string list" where
  "split_ws cur [] = (if cur = [] then [] else [cur])"
| "split_ws cur (c # cs) =
     (if is_space c then (if cur = [] then split_ws [] cs else cur # split_ws [] cs)
      else split_ws (cur @ [c]) cs)"

definition py_split :: "string \<Rightarrow> string list" where
  "py_split s = split_ws [] s"

text \<open>
  \<open>s.split(sep)\<close> with a one-character separator: the pieces between separators, empty
  pieces kept, so the result is never empty.
\<close>

fun split_sep :: "char \<Rightarrow> string \<Rightarrow> string \<Rightarrow> string list" where
  "split_sep sep cur [] = [cur]"
| "split_sep sep cur (c # cs) =
     (if c = sep then cur # split_sep sep [] cs else split_sep sep (cur @ [c]) cs)"

definition py_split_on :: "char \<Rightarrow> string \<Rightarrow> string list" where
  "py_split_on sep s = split_sep sep [] s"

text \<open>\<open>xs[i]\<close> for a non-negative constant index: out of range raises \<open>IndexError\<close>.\<close>

definition index :: "'a list \<Rightarrow> nat \<Rightarrow> py_error + 'a" where
  "index xs i = (if i < length xs then Inr (xs ! i) else Inl IndexError)"

section \<open>The identifier normalizer: \<open>parse_os_name\<close> (cve\_converter.py)\<close>

text \<open>
  The three branches of the source in their order. The reads \<open>parts[2]\<close> of the CentOS
  Stream branch and \<open>parts[0]\<close> of the general branch are not guarded in the source,
  so they go through \<open>index\<close> and can raise; the guarded reads fall back to the empty
  string as the conditional expressions of the source do.
\<close>

definition parse_os_name :: "string \<Rightarrow> py_error + (string \<times> string \<times> string)" where
  "parse_os_name os_name =
     (let parts = py_split os_name in
      if length parts \<ge> 2 \<and> parts ! 0 = ''CentOS'' \<and> parts ! 1 = ''Stream'' then
        (case index parts 2 of
           Inl e \<Rightarrow> Inl e
         | Inr p2 \<Rightarrow>
             Inr (parts ! 0, parts ! 1 @ p2, if length parts > 3 then parts ! 3 else []))
      else if length parts \<ge> 2 \<and> parts ! 0 = ''Oracle'' \<and> parts ! 1 = ''Linux'' then
        Inr (''OracleLinux'',
             if length parts > 2 then parts ! 2 else [],
             if length parts > 3 then parts ! 3 else [])
      else
        (case index parts 0 of
           Inl e \<Rightarrow> Inl e
         | Inr distro \<Rightarrow>
             Inr (distro,
                  if length parts > 1 then parts ! 1 else [],
                  if length parts > 2 then parts ! 2 else [])))"

section \<open>Paths (posixpath)\<close>

text \<open>
  \<open>os.path.join\<close>: a component that starts with a slash discards what came before it;
  otherwise it is appended, after a slash unless the path so far is empty or already ends
  with one.
\<close>

definition join2 :: "string \<Rightarrow> string \<Rightarrow> string" where
  "join2 a b =
     (if startswith b ''/'' then b
      else if a = [] \<or> endswith a ''/'' then a @ b
      else a @ ''/'' @ b)"

definition path_join :: "string \<Rightarrow> string list \<Rightarrow> string" where
  "path_join a ps = foldl join2 a ps"

text \<open>\<open>os.path.basename\<close> and \<open>os.path.dirname\<close>.\<close>

definition basename :: "string \<Rightarrow> string" where
  "basename p = rev (takeWhile (\<lambda>c. c \<noteq> CHR ''/'') (rev p))"

definition dirname :: "string \<Rightarrow> string" where
  "dirname p =
     (let head = rev (dropWhile (\<lambda>c. c \<noteq> CHR ''/'') (rev p)) in
      if head \<noteq> [] \<and> \<not> list_all (\<lambda>c. c = CHR ''/'') head
      then rev (dropWhile (\<lambda>c. c = CHR ''/'') (rev head))
      else head)"

section \<open>Parsed JSON and the Python operations applied to it\<close>

text \<open>
  What \<open>json.load\<close> returns: \<open>None\<close>, a bool, a number, a \<open>str\<close>, a \<open>list\<close> or a
  \<open>dict\<close> with string keys. A dict is its list of items in insertion order, with
  distinct keys. The code never looks inside a number, so a float keeps its literal.
\<close>

datatype json =
    JNull | JBool bool | JInt int | JFloat string | JStr string
  | JArr "json list" | JObj "(string \<times> json) list"

text \<open>
  \<open>key in x\<close> for a string \<open>key\<close>: a key of a dict, an element of a list, a substring
  of a string; \<open>TypeError\<close> on a value that is not a container.
\<close>

fun py_contains :: "json \<Rightarrow> string \<Rightarrow> py_error + bool" where
  "py_contains (JObj kvs) key = Inr (map_of kvs key \<noteq> None)"
| "py_contains (JArr xs) key = Inr (JStr key \<in> set xs)"
| "py_contains (JStr s) key = Inr (str_contains s key)"
| "py_contains _ key = Inl TypeError"

text \<open>
  \<open>x[key]\<close> for a string \<open>key\<close>: the value in a dict (\<open>KeyError\<close> when absent),
  \<open>TypeError\<close> on everything else (a list or a string wants an integer index).
\<close>

fun py_getitem :: "json \<Rightarrow> string \<Rightarrow> py_error + json" where
  "py_getitem (JObj kvs) key = (case map_of kvs key of None \<Rightarrow> Inl KeyError | Some v \<Rightarrow> Inr v)"
| "py_getitem _ key = Inl TypeError"

text \<open>\<open>for i in x\<close>: the keys of a dict, the elements of a list, the characters of a string.\<close>

fun py_iter :: "json \<Rightarrow> py_error + json list" where
  "py_iter (JObj kvs) = Inr (map (\<lambda>kv. JStr (fst kv)) kvs)"
| "py_iter (JArr xs) = Inr xs"
| "py_iter (JStr s) = Inr (map (\<lambda>c. JStr [c]) s)"
| "py_iter _ = Inl TypeError"

text \<open>\<open>x.get(key)\<close>: a dict answers with the value or \<open>None\<close>; nothing else has \<open>get\<close>.\<close>

fun py_get :: "json \<Rightarrow> string \<Rightarrow> py_error + json" where
  "py_get (JObj kvs) key = Inr (case map_of kvs key of None \<Rightarrow> JNull | Some v \<Rightarrow> v)"
| "py_get _ key = Inl AttributeError"

text \<open>\<open>x.items()\<close>: only a dict has it.\<close>

fun py_items :: "json \<Rightarrow> py_error + (string \<times> json) list" where
  "py_items (JObj kvs) = Inr kvs"
| "py_items _ = Inl AttributeError"

text \<open>
  \<open>x[key] = v\<close>: a dict replaces the value of an existing key where it stands and appends
  a new key; every other value raises \<open>TypeError\<close>.
\<close>

fun dict_set :: "(string \<times> json) list \<Rightarrow> string \<Rightarrow> json \<Rightarrow> (string \<times> json) list" where
  "dict_set [] key v = [(key, v)]"
| "dict_set (kv # kvs) key v = (if fst kv = key then (key, v) # kvs else kv # dict_set kvs key v)"

fun py_setitem :: "json \<Rightarrow> string \<Rightarrow> json \<Rightarrow> py_error + json" where
  "py_setitem (JObj kvs) key v = Inr (JObj (dict_set kvs key v))"
| "py_setitem _ key v = Inl TypeError"

section \<open>The file system as the resolver sees it\<close>

text \<open>
  The resolver only reads. The file system is the answers of the library calls it makes:
  \<open>os.path.exists\<close>, \<open>os.path.isdir\<close>, \<open>os.listdir\<close> (which can raise),
  \<open>glob.glob(pattern, recursive=True)\<close>, \<open>os.walk\<close> (the list of its
  \<open>(root, dirs, files)\<close> triples) and \<open>open\<close> followed by \<open>json.load\<close>.
  Every call is recorded, with its path, in a trace, next to what the code prints.
\<close>

record filesystem =
  fs_exists :: "string \<Rightarrow> bool"
  fs_isdir :: "string \<Rightarrow> bool"
  fs_listdir :: "string \<Rightarrow> py_error + string list"
  fs_glob :: "string \<Rightarrow> string list"
  fs_walk :: "string \<Rightarrow> (string \<times> string list \<times> string list) list"
  fs_load :: "string \<Rightarrow> py_error + json"

datatype message =
    InvalidFormat
  | InvalidFormatOf string
  | CouldNotParse string py_error
  | CouldNotFind string "string option"
  | CouldNotRead string py_error

datatype event =
    Print message
  | Exists string | IsDir string | ListDir string | Glob string | Walk string | Open string

text \<open>
  A search step gives its trace and how it ended: \<open>Inr (Some p)\<close> is \<open>return p\<close>,
  \<open>Inr None\<close> is falling through to the next statement, \<open>Inl e\<close> is an exception that
  nothing catches.
\<close>

type_synonym search = "event list \<times> (py_error + string option)"

definition skip :: search where
  "skip = ([], Inr None)"

definition emit :: "event list \<Rightarrow> search \<Rightarrow> search" where
  "emit t s = (t @ fst s, snd s)"

text \<open>Sequencing: the second step runs only when the first fell through.\<close>

definition seq :: "search \<Rightarrow> search \<Rightarrow> search" where
  "seq a b = (case snd a of Inr None \<Rightarrow> emit (fst a) b | _ \<Rightarrow> a)"

text \<open>The clause \<open>except (json.JSONDecodeError, IOError)\<close>.\<close>

definition caught :: "py_error \<Rightarrow> bool" where
  "caught e = (e = JSONDecodeError \<or> e = OSError)"

section \<open>The source resolver: \<open>find_cve_file\<close> (get-cve.py)\<close>

text \<open>
  The guard \<open>source is None or source.lower() == name\<close> that opens the blocks of the
  direct-keyed roots and of the advisory root.
\<close>

definition wants :: "string option \<Rightarrow> string \<Rightarrow> bool" where
  "wants source name = (case source of None \<Rightarrow> True | Some s \<Rightarrow> lower s = name)"

text \<open>
  A direct-keyed root (the source writes this block three times, for \<open>nvd\<close>,
  \<open>ubuntu\<close> and \<open>debian\<close>): one existence probe of \<open><root>/<name>/<year>/<id>.json\<close>.
\<close>

definition direct_path :: "string \<Rightarrow> string \<Rightarrow> string \<Rightarrow> string \<Rightarrow> string" where
  "direct_path repo_root name year cve_id = path_join repo_root [name, year, cve_id @ ''.json'']"

definition probe_direct :: "filesystem \<Rightarrow> string \<Rightarrow> string \<Rightarrow> string \<Rightarrow> string \<Rightarrow> search" where
  "probe_direct fs repo_root name year cve_id =
     (let p = direct_path repo_root name year cve_id in
      ([Exists p], Inr (if fs_exists fs p then Some p else None)))"

text \<open>
  The body of a \<open>try\<close> that opens and parses \<open>json_file\<close> and then runs a matcher on the
  data: a match returns the file, a caught exception prints the warning and goes on to
  the next file, any other exception leaves the function.
\<close>

definition inspect_file :: "filesystem \<Rightarrow> (json \<Rightarrow> py_error + bool) \<Rightarrow> string \<Rightarrow> search" where
  "inspect_file fs matcher json_file =
     (case (case fs_load fs json_file of Inl e \<Rightarrow> Inl e | Inr data \<Rightarrow> matcher data) of
        Inl e \<Rightarrow>
          if caught e then ([Open json_file, Print (CouldNotParse json_file e)], Inr None)
          else ([Open json_file], Inl e)
      | Inr True \<Rightarrow> ([Open json_file], Inr (Some json_file))
      | Inr False \<Rightarrow> ([Open json_file], Inr None))"

text \<open>The advisory matcher: the loop over \<open>data["Advisory"]["Identifiers"]\<close>.\<close>

fun identifiers_match :: "json list \<Rightarrow> string \<Rightarrow> py_error + bool" where
  "identifiers_match [] cve_id = Inr False"
| "identifiers_match (identifier # rest) cve_id =
     (case py_get identifier ''Type'' of
        Inl e \<Rightarrow> Inl e
      | Inr ty \<Rightarrow>
          if ty = JStr ''CVE'' then
            (case py_get identifier ''Value'' of
               Inl e \<Rightarrow> Inl e
             | Inr v \<Rightarrow> if v = JStr cve_id then Inr True else identifiers_match rest cve_id)
          else identifiers_match rest cve_id)"

definition ghsa_matches :: "string \<Rightarrow> json \<Rightarrow> py_error + bool" where
  "ghsa_matches cve_id data =
     (case py_contains data ''Advisory'' of
        Inl e \<Rightarrow> Inl e
      | Inr False \<Rightarrow> Inr False
      | Inr True \<Rightarrow>
          (case py_getitem data ''Advisory'' of
             Inl e \<Rightarrow> Inl e
           | Inr advisory \<Rightarrow>
               (case py_contains advisory ''Identifiers'' of
                  Inl e \<Rightarrow> Inl e
                | Inr False \<Rightarrow> Inr False
                | Inr True \<Rightarrow>
                    (case py_getitem advisory ''Identifiers'' of
                       Inl e \<Rightarrow> Inl e
                     | Inr identifiers \<Rightarrow>
                         (case py_iter identifiers of
                            Inl e \<Rightarrow> Inl e
                          | Inr ids \<Rightarrow> identifiers_match ids cve_id)))))"

text \<open>The loop over the files that the recursive glob found in one ecosystem.\<close>

fun ghsa_scan_files :: "filesystem \<Rightarrow> string \<Rightarrow> string list \<Rightarrow> search" where
  "ghsa_scan_files fs cve_id [] = skip"
| "ghsa_scan_files fs cve_id (json_file # rest) =
     seq (inspect_file fs (ghsa_matches cve_id) json_file) (ghsa_scan_files fs cve_id rest)"

text \<open>The loop over the entries of \<open>os.listdir(ghsa_base)\<close>.\<close>

fun ghsa_scan_dirs :: "filesystem \<Rightarrow> string \<Rightarrow> string \<Rightarrow> string list \<Rightarrow> search" where
  "ghsa_scan_dirs fs ghsa_base cve_id [] = skip"
| "ghsa_scan_dirs fs ghsa_base cve_id (ecosystem_dir # rest) =
     (let ecosystem_path = path_join ghsa_base [ecosystem_dir] in
      if fs_isdir fs ecosystem_path then
        (let pattern = path_join ecosystem_path [''**/*.json''] in
         emit [IsDir ecosystem_path, Glob pattern]
           (seq (ghsa_scan_files fs cve_id (fs_glob fs pattern))
                (ghsa_scan_dirs fs ghsa_base cve_id rest)))
      else emit [IsDir ecosystem_path] (ghsa_scan_dirs fs ghsa_base cve_id rest))"

definition search_ghsa :: "filesystem \<Rightarrow> string \<Rightarrow> string \<Rightarrow> search" where
  "search_ghsa fs repo_root cve_id =
     (let ghsa_base = path_join repo_root [''ghsa''] in
      if fs_exists fs ghsa_base then
        (case fs_listdir fs ghsa_base of
           Inl e \<Rightarrow> ([Exists ghsa_base, ListDir ghsa_base], Inl e)
         | Inr ecosystem_dirs \<Rightarrow>
             emit [Exists ghsa_base, ListDir ghsa_base]
               (ghsa_scan_dirs fs ghsa_base cve_id ecosystem_dirs))
      else ([Exists ghsa_base], Inr None))"

text \<open>
  The version-keyed matcher (the Alpine format): the loop over
  \<open>data["secfixes"].items()\<close>, testing \<open>cve_id in cves\<close>.
\<close>

fun secfixes_match :: "(string \<times> json) list \<Rightarrow> string \<Rightarrow> py_error + bool" where
  "secfixes_match [] cve_id = Inr False"
| "secfixes_match (item # rest) cve_id =
     (case py_contains (snd item) cve_id of
        Inl e \<Rightarrow> Inl e
      | Inr True \<Rightarrow> Inr True
      | Inr False \<Rightarrow> secfixes_match rest cve_id)"

definition secfixes_matches :: "string \<Rightarrow> json \<Rightarrow> py_error + bool" where
  "secfixes_matches cve_id data =
     (case py_contains data ''secfixes'' of
        Inl e \<Rightarrow> Inl e
      | Inr False \<Rightarrow> Inr False
      | Inr True \<Rightarrow>
          (case py_getitem data ''secfixes'' of
             Inl e \<Rightarrow> Inl e
           | Inr secfixes \<Rightarrow>
               (case py_items secfixes of
                  Inl e \<Rightarrow> Inl e
                | Inr items \<Rightarrow> secfixes_match items cve_id)))"

text \<open>The loop over the \<open>files\<close> of one triple of \<open>os.walk\<close>.\<close>

fun walk_files :: "filesystem \<Rightarrow> string \<Rightarrow> string \<Rightarrow> string list \<Rightarrow> search" where
  "walk_files fs cve_id root [] = skip"
| "walk_files fs cve_id root (file # rest) =
     (if endswith file ''.json'' then
        seq (inspect_file fs (secfixes_matches cve_id) (path_join root [file]))
            (walk_files fs cve_id root rest)
      else walk_files fs cve_id root rest)"

text \<open>The loop over the triples of \<open>os.walk(source_base)\<close>.\<close>

fun walk_dirs :: "filesystem \<Rightarrow> string \<Rightarrow> (string \<times> string list \<times> string list) list \<Rightarrow> search" where
  "walk_dirs fs cve_id [] = skip"
| "walk_dirs fs cve_id (triple # rest) =
     seq (walk_files fs cve_id (fst triple) (snd (snd triple))) (walk_dirs fs cve_id rest)"

text \<open>The loop over the version-keyed source directories.\<close>

fun scan_sources :: "filesystem \<Rightarrow> string \<Rightarrow> string \<Rightarrow> string list \<Rightarrow> search" where
  "scan_sources fs repo_root cve_id [] = skip"
| "scan_sources fs repo_root cve_id (dir_name # rest) =
     (let source_base = path_join repo_root [dir_name] in
      if fs_exists fs source_base then
        emit [Exists source_base, Walk source_base]
          (seq (walk_dirs fs cve_id (fs_walk fs source_base))
               (scan_sources fs repo_root cve_id rest))
      else emit [Exists source_base] (scan_sources fs repo_root cve_id rest))"

definition other_sources :: "string list" where
  "other_sources = [''alpine'', ''amazon'', ''oracle'', ''photon'', ''redhat'', ''suse'']"

definition search_others :: "filesystem \<Rightarrow> string \<Rightarrow> string \<Rightarrow> string option \<Rightarrow> search" where
  "search_others fs repo_root cve_id source =
     (let source_dir = (case source of None \<Rightarrow> None
                        | Some s \<Rightarrow> if s \<noteq> [] then Some (lower s) else None) in
      scan_sources fs repo_root cve_id
        (case source_dir of
           None \<Rightarrow> other_sources
         | Some d \<Rightarrow> if d \<noteq> [] then [d] else other_sources))"

text \<open>
  \<open>find_cve_file\<close>. \<open>repo_root\<close> is the directory of the script. The identifier is
  uppercased, must start with \<open>CVE-\<close>, and its second piece between dashes is the year; then
  the five blocks of the source run in their order, each behind its guard on \<open>source\<close>.
\<close>

definition find_cve_file :: "filesystem \<Rightarrow> string \<Rightarrow> string \<Rightarrow> string option \<Rightarrow> search" where
  "find_cve_file fs repo_root cve_id0 source =
     (let cve_id = upper cve_id0 in
      if \<not> startswith cve_id ''CVE-'' then ([Print InvalidFormat], Inr None)
      else
        (case index (py_split_on (CHR ''-'') cve_id) 1 of
           Inl e \<Rightarrow> ([Print (InvalidFormatOf cve_id)], Inr None)
         | Inr year \<Rightarrow>
             seq (if wants source ''nvd''
                  then probe_direct fs repo_root ''nvd'' year cve_id else skip)
            (seq (if wants source ''ubuntu''
                  then probe_direct fs repo_root ''ubuntu'' year cve_id else skip)
            (seq (if wants source ''debian''
                  then probe_direct fs repo_root ''debian'' year cve_id else skip)
            (seq (if wants source ''ghsa''
                  then search_ghsa fs repo_root cve_id else skip)
                 (if source = None \<or> lower (the source) \<in> set other_sources
                  then search_others fs repo_root cve_id source else skip))))))"

section \<open>The record loader: \<open>get_cve_info\<close> (get-cve.py)\<close>

text \<open>The chain of substring tests on the path that chooses the \<open>_source\<close> label.\<close>

definition source_label :: "string \<Rightarrow> string" where
  "source_label file_path =
     (if str_contains file_path ''nvd'' then ''NVD (National Vulnerability Database)''
      else if str_contains file_path ''ghsa'' then ''GHSA (GitHub Security Advisory)''
      else if str_contains file_path ''alpine'' then
        ''Alpine Linux ('' @ basename (dirname (dirname file_path)) @ ''/''
          @ basename (dirname file_path) @ '')''
      else if str_contains file_path ''debian'' then ''Debian Linux''
      else if str_contains file_path ''ubuntu'' then ''Ubuntu Linux''
      else if str_contains file_path ''amazon'' then ''Amazon Linux''
      else if str_contains file_path ''oracle'' then ''Oracle Linux''
      else if str_contains file_path ''photon'' then ''VMware Photon OS''
      else if str_contains file_path ''redhat'' then ''Red Hat Linux''
      else if str_contains file_path ''suse'' then ''SUSE Linux''
      else ''Unknown Source'')"

text \<open>
  \<open>get_cve_info\<close>: the trace and, unless an exception escapes, the annotated record or
  \<open>None\<close>. \<open>not file_path\<close> holds for \<open>None\<close> and for the empty string.
\<close>

definition get_cve_info ::
  "filesystem \<Rightarrow> string \<Rightarrow> string \<Rightarrow> string option \<Rightarrow> event list \<times> (py_error + json option)" where
  "get_cve_info fs repo_root cve_id source =
     (case find_cve_file fs repo_root cve_id source of
        (t, Inl e) \<Rightarrow> (t, Inl e)
      | (t, Inr found) \<Rightarrow>
          if found = None \<or> found = Some [] then
            (t @ [Print (CouldNotFind cve_id source)], Inr None)
          else
            (let file_path = the found in
             case (case fs_load fs file_path of
                     Inl e \<Rightarrow> Inl e
                   | Inr data \<Rightarrow> py_setitem data ''_source'' (JStr (source_label file_path))) of
               Inl e \<Rightarrow>
                 if caught e then (t @ [Open file_path, Print (CouldNotRead file_path e)], Inr None)
                 else (t @ [Open file_path], Inl e)
             | Inr data \<Rightarrow> (t @ [Open file_path], Inr (Some data))))"

section \<open>The idempotent writer: \<open>create_json_files\<close> (cve\_converter.py)\<close>

text \<open>
  A row of the CSV reader: field name and value, both strings, in column order.
\<close>

type_synonym entry = "(string \<times> string) list"

text \<open>
  What the writer needs from outside: whether the operating system lets it create a
  directory, read a file and write a file at a path (each refusal is an exception in the
  source), and \<open>json.dumps(entry, indent=2)\<close>.
\<close>

record writer_env =
  can_makedirs :: "string \<Rightarrow> bool"
  can_read :: "string \<Rightarrow> bool"
  can_write :: "string \<Rightarrow> bool"
  dumps :: "entry \<Rightarrow> string"

text \<open>
  The state of one call: the files on disk (a path that exists, with the text that reading
  it gives), the local variables \<open>created_files\<close>, \<open>file_count\<close> and
  \<open>unchanged_count\<close>, and the paths written so far, in order. Two different path
  strings are two different files. Directories and the progress messages are not part of
  the state.
\<close>

record wstate =
  files :: "string \<rightharpoonup> string"
  created_files :: "string set"
  file_count :: nat
  unchanged_count :: nat
  written :: "string list"

text \<open>
  The first half of the loop body: the three fields (a missing one is a \<open>KeyError\<close>), the
  year, the triplet, the directory and the file path.
\<close>

definition entry_paths :: "string \<Rightarrow> entry \<Rightarrow> py_error + (string \<times> string)" where
  "entry_paths base_dir entry =
     (case map_of entry ''CVE'' of
        None \<Rightarrow> Inl KeyError
      | Some cve \<Rightarrow>
     (case map_of entry ''OS name'' of
        None \<Rightarrow> Inl KeyError
      | Some os_name \<Rightarrow>
     (case map_of entry ''Last updated'' of
        None \<Rightarrow> Inl KeyError
      | Some last_updated \<Rightarrow>
          (let year = take 4 last_updated in
           case parse_os_name os_name of
             Inl e \<Rightarrow> Inl e
           | Inr (distro, version, variant) \<Rightarrow>
               (let dir_path =
                      (if variant \<noteq> []
                       then path_join base_dir [''tuxcare'', distro, version, variant, year]
                       else path_join base_dir [''tuxcare'', distro, version, year])
                in Inr (dir_path, path_join dir_path [cve @ ''.json'']))))))"

text \<open>
  The loop body. Both \<open>except\<close> clauses of the outer \<open>try\<close> go on to the next entry
  with nothing changed; a failed read of an existing file falls through to the write, as
  the inner \<open>except\<close> does.
\<close>

definition process_entry :: "writer_env \<Rightarrow> string \<Rightarrow> wstate \<Rightarrow> entry \<Rightarrow> wstate" where
  "process_entry env base_dir st entry =
     (case entry_paths base_dir entry of
        Inl e \<Rightarrow> st
      | Inr (dir_path, file_path) \<Rightarrow>
          if \<not> can_makedirs env dir_path then st
          else if file_path \<in> created_files st then st
          else
            (let new_content = dumps env entry in
             if files st file_path \<noteq> None \<and> can_read env file_path
                \<and> files st file_path = Some new_content
             then st\<lparr>created_files := insert file_path (created_files st),
                     unchanged_count := unchanged_count st + 1\<rparr>
             else if \<not> can_write env file_path then st
             else st\<lparr>files := (files st)(file_path \<mapsto> new_content),
                     created_files := insert file_path (created_files st),
                     file_count := file_count st + 1,
                     written := written st @ [file_path]\<rparr>))"

fun process_entries :: "writer_env \<Rightarrow> string \<Rightarrow> wstate \<Rightarrow> entry list \<Rightarrow> wstate" where
  "process_entries env base_dir st [] = st"
| "process_entries env base_dir st (entry # rest) =
     process_entries env base_dir (process_entry env base_dir st entry) rest"

text \<open>
  \<open>create_json_files\<close>, started on the files \<open>disk\<close>: the state when the loop ends. The
  value the source returns is its \<open>file_count\<close>.
\<close>

definition create_json_files :: "writer_env \<Rightarrow> entry list \<Rightarrow> string \<Rightarrow> (string \<rightharpoonup> string) \<Rightarrow> wstate" where
  "create_json_files env data base_dir disk =
     process_entries env base_dir
       \<lparr>files = disk, created_files = {}, file_count = 0, unchanged_count = 0, written = []\<rparr>
       data"

section \<open>The specification's wording\<close>

text \<open>The shape \<open>CVE-<year>-<sequence>\<close>: two non-empty runs of digits after \<open>CVE\<close>.\<close>

definition is_digits :: "string \<Rightarrow> bool" where
  "is_digits s = (s \<noteq> [] \<and> list_all (\<lambda>c. c \<in> set ''0123456789'') s)"

definition cve_shape :: "string \<Rightarrow> bool" where
  "cve_shape s =
     (case py_split_on (CHR ''-'') s of
        [c, year, sequence] \<Rightarrow> c = ''CVE'' \<and> is_digits year \<and> is_digits sequence
      | _ \<Rightarrow> False)"

text \<open>
  The resolver of the specification: a priority-ordered list of source roots, each with
  one of three kinds of matcher, tried in order until the first one that does not fall
  through.
\<close>

datatype matcher = DirectKeyed | AdvisoryNested | VersionKeyed

definition source_roots :: "(string \<times> matcher) list" where
  "source_roots =
     [(''nvd'', DirectKeyed), (''ubuntu'', DirectKeyed), (''debian'', DirectKeyed),
      (''ghsa'', AdvisoryNested),
      (''alpine'', VersionKeyed), (''amazon'', VersionKeyed), (''oracle'', VersionKeyed),
      (''photon'', VersionKeyed), (''redhat'', VersionKeyed), (''suse'', VersionKeyed)]"

fun probe :: "filesystem \<Rightarrow> string \<Rightarrow> string \<Rightarrow> string \<Rightarrow> string \<times> matcher \<Rightarrow> search" where
  "probe fs repo_root year cve_id (name, DirectKeyed) = probe_direct fs repo_root name year cve_id"
| "probe fs repo_root year cve_id (name, AdvisoryNested) = search_ghsa fs repo_root cve_id"
| "probe fs repo_root year cve_id (name, VersionKeyed) = scan_sources fs repo_root cve_id [name]"


text \<open>The year of an identifier: its second piece between dashes.\<close>

definition year_of :: "string \<Rightarrow> string" where
  "year_of cve_id = py_split_on (CHR ''-'') cve_id ! 1"

text \<open>The filesystem events of a trace: everything but the printing.\<close>

fun is_fs_event :: "event \<Rightarrow> bool" where
  "is_fs_event (Print m) = False"
| "is_fs_event _ = True"




text \<open>
  The provenance label of the specification: the first name of a priority list that
  occurs in the path decides.
\<close>

definition provenance_table :: "(string \<times> (string \<Rightarrow> string)) list" where
  "provenance_table =
     [(''nvd'', \<lambda>p. ''NVD (National Vulnerability Database)''),
      (''ghsa'', \<lambda>p. ''GHSA (GitHub Security Advisory)''),
      (''alpine'', \<lambda>p. ''Alpine Linux ('' @ basename (dirname (dirname p)) @ ''/''
                         @ basename (dirname p) @ '')''),
      (''debian'', \<lambda>p. ''Debian Linux''),
      (''ubuntu'', \<lambda>p. ''Ubuntu Linux''),
      (''amazon'', \<lambda>p. ''Amazon Linux''),
      (''oracle'', \<lambda>p. ''Oracle Linux''),
      (''photon'', \<lambda>p. ''VMware Photon OS''),
      (''redhat'', \<lambda>p. ''Red Hat Linux''),
      (''suse'', \<lambda>p. ''SUSE Linux'')]"

definition label_by_priority :: "string \<Rightarrow> string" where
  "label_by_priority path =
     (case find (\<lambda>row. str_contains path (fst row)) provenance_table of
        None \<Rightarrow> ''Unknown Source''
      | Some row \<Rightarrow> snd row path)"



text \<open>
  The canonical path of a row, when it has one, and the bookkeeping of the writer: every
  path in \<open>created_files\<close> was counted once, as created or as unchanged, and the
  created ones are the paths written, each once.
\<close>

definition file_path_of :: "string \<Rightarrow> entry \<Rightarrow> string option" where
  "file_path_of base_dir entry =
     (case entry_paths base_dir entry of Inl e \<Rightarrow> None | Inr (dir_path, file_path) \<Rightarrow> Some file_path)"

definition counted_once :: "wstate \<Rightarrow> bool" where
  "counted_once st =
     (finite (created_files st)
      \<and> file_count st + unchanged_count st = card (created_files st)
      \<and> distinct (written st)
      \<and> set (written st) \<subseteq> created_files st
      \<and> file_count st = length (written st))"

section \<open>Example inputs\<close>

text \<open>
  An advisory document, and four file systems under the repository root \<open>/repo\<close>: one
  where every probe succeeds, one that is empty, one where everything but the \<open>nvd\<close>
  root exists, and one that holds only a \<open>ghsa\<close> root with a single advisory file.
\<close>

definition advisory_fields :: "(string \<times> json) list" where
  "advisory_fields =
     [(''Advisory'',
       JObj [(''Summary'', JStr ''example''),
             (''Identifiers'',
              JArr [JObj [(''Type'', JStr ''GHSA''), (''Value'', JStr ''GHSA-xxxx-yyyy-zzzz'')],
                    JObj [(''Type'', JStr ''CVE''), (''Value'', JStr ''CVE-2021-9999'')]])])]"

definition advisory_example :: json where
  "advisory_example = JObj advisory_fields"

definition fs_full :: filesystem where
  "fs_full =
     \<lparr>fs_exists = (\<lambda>p. True),
      fs_isdir = (\<lambda>p. True),
      fs_listdir = (\<lambda>p. Inr [''npm'']),
      fs_glob = (\<lambda>p. [''/repo/ghsa/npm/pkg/GHSA-xxxx-yyyy-zzzz.json'']),
      fs_walk = (\<lambda>p. [(p, [], [''APKINDEX.json''])]),
      fs_load = (\<lambda>p. Inr advisory_example)\<rparr>"

definition fs_empty :: filesystem where
  "fs_empty =
     \<lparr>fs_exists = (\<lambda>p. False),
      fs_isdir = (\<lambda>p. False),
      fs_listdir = (\<lambda>p. Inl OSError),
      fs_glob = (\<lambda>p. []),
      fs_walk = (\<lambda>p. []),
      fs_load = (\<lambda>p. Inl OSError)\<rparr>"

definition fs_without_nvd :: filesystem where
  "fs_without_nvd = fs_full\<lparr>fs_exists := (\<lambda>p. \<not> startswith p ''/repo/nvd'')\<rparr>"


text \<open>
  Two rows of one CVE and one distribution (the second with doubled blanks in the name and
  a later date in the same year), a serializer that stands in for \<open>json.dumps\<close>, an
  environment that permits everything and one where files can be written but not read.
\<close>

definition example_dumps :: "entry \<Rightarrow> string" where
  "example_dumps entry = concat (map (\<lambda>kv. fst kv @ '': '' @ snd kv @ ''; '') entry)"

definition env_ok :: writer_env where
  "env_ok = \<lparr>can_makedirs = (\<lambda>p. True), can_read = (\<lambda>p. True), can_write = (\<lambda>p. True),
             dumps = example_dumps\<rparr>"


definition row_a :: entry where
  "row_a = [(''CVE'', ''CVE-2025-21785''), (''OS name'', ''AlmaLinux 9.2 ESU''),
            (''Last updated'', ''2025-03-01'')]"

definition row_b :: entry where
  "row_b = [(''CVE'', ''CVE-2025-21785''), (''OS name'', ''AlmaLinux  9.2  ESU''),
            (''Last updated'', ''2025-04-02'')]"

definition path_a :: string where
  "path_a = ''./tuxcare/AlmaLinux/9.2/ESU/2025/CVE-2025-21785.json''"

section \<open>The normalizer on token lists\<close>

text \<open>What \<open>parse_os_name\<close> computes, by the number of tokens of the name.\<close>

lemma parse_os_name_tokens:
  "parse_os_name s =
     (case py_split s of
        [] \<Rightarrow> Inl IndexError
      | [a] \<Rightarrow> Inr (a, [], [])
      | [a, b] \<Rightarrow>
          if a = ''CentOS'' \<and> b = ''Stream'' then Inl IndexError
          else if a = ''Oracle'' \<and> b = ''Linux'' then Inr (''OracleLinux'', [], [])
          else Inr (a, b, [])
      | [a, b, c] \<Rightarrow>
          if a = ''CentOS'' \<and> b = ''Stream'' then Inr (a, b @ c, [])
          else if a = ''Oracle'' \<and> b = ''Linux'' then Inr (''OracleLinux'', c, [])
          else Inr (a, b, c)
      | a # b # c # d # rest \<Rightarrow>
          if a = ''CentOS'' \<and> b = ''Stream'' then Inr (a, b @ c, d)
          else if a = ''Oracle'' \<and> b = ''Linux'' then Inr (''OracleLinux'', c, d)
          else Inr (a, b, c))"
  by (auto simp: parse_os_name_def Let_def index_def split: list.split)






text \<open>
  The name \<open>CentOS Stream\<close> raises as well: its branch reads \<open>parts[2]\<close> without the
  guard that the Oracle Linux branch has.
\<close>

lemma parse_os_name_centos_stream_raises: "parse_os_name ''CentOS Stream'' = Inl IndexError"
  by (simp add: parse_os_name_tokens py_split_def is_space_def)



section \<open>Strings, paths and sequencing\<close>



lemma startswith_slash: "startswith b ''/'' = (case b of [] \<Rightarrow> False | c # cs \<Rightarrow> c = CHR ''/'')"
  by (cases b) (auto simp: startswith_def)

lemma endswith_slash: "endswith a ''/'' = (a \<noteq> [] \<and> last a = CHR ''/'')"
proof (cases a rule: rev_cases)
  case Nil
  then show ?thesis by (simp add: endswith_def)
next
  case (snoc ys y)
  then show ?thesis by (simp add: endswith_def)
qed

lemma join2_eval:
  "join2 a b =
     (if (case b of [] \<Rightarrow> False | c # cs \<Rightarrow> c = CHR ''/'') then b
      else if a = [] \<or> last a = CHR ''/'' then a @ b
      else a @ ''/'' @ b)"
  by (auto simp: join2_def startswith_slash endswith_slash)

lemma emit_pair: "emit t (t', r) = (t @ t', r)"
  by (simp add: emit_def)

lemma emit_nil: "emit [] s = s"
  by (simp add: emit_def)

lemma emit_emit: "emit t (emit t' s) = emit (t @ t') s"
  by (simp add: emit_def)

lemma seq_fall: "seq (t, Inr None) b = emit t b"
  and seq_found: "seq (t, Inr (Some p)) b = (t, Inr (Some p))"
  and seq_raise: "seq (t, Inl e) b = (t, Inl e)"
  by (simp_all add: seq_def)

lemma seq_skip_left: "seq skip b = b"
  by (simp add: skip_def seq_fall emit_nil)

lemma seq_skip_right: "seq a skip = a"
  by (cases a) (auto simp: seq_def skip_def emit_def split: sum.split option.split)

lemma seq_nil_left: "seq ([], Inr None) b = b"
  by (simp add: seq_fall emit_nil)

lemma seq_nil_right: "seq a ([], Inr None) = a"
  using seq_skip_right [of a] by (simp add: skip_def)






text \<open>
  An identifier that starts with \<open>CVE-\<close> always has a second piece, so the
  \<open>IndexError\<close> handler of \<open>find_cve_file\<close> is never entered.
\<close>

lemma split_sep_nonempty: "split_sep sep cur s \<noteq> []"
  by (induction s arbitrary: cur) auto

lemma year_of_valid:
  assumes "startswith s ''CVE-''"
  shows "index (py_split_on (CHR ''-'') s) 1 = Inr (year_of s)"
proof -
  have "s = take (length ''CVE-'') s @ drop (length ''CVE-'') s"
    by (rule append_take_drop_id [symmetric])
  with assms have "s = ''CVE-'' @ drop (length ''CVE-'') s"
    unfolding startswith_def by metis
  then obtain r where s: "s = ''CVE-'' @ r" ..
  obtain y ys where "split_sep (CHR ''-'') [] r = y # ys"
    using split_sep_nonempty by (cases "split_sep (CHR ''-'') [] r") auto
  then show ?thesis
    by (simp add: s index_def year_of_def py_split_on_def)
qed

lemmas string_ops =
  upper_def upper_char_def lower_def lower_char_def startswith_def endswith_def
  py_split_on_def index_def path_join_def join2_eval direct_path_def year_of_def

section \<open>The resolver\<close>



lemma find_cve_file_valid:
  assumes "startswith (upper c) ''CVE-''"
  shows "find_cve_file fs root c source =
     seq (if wants source ''nvd''
          then probe_direct fs root ''nvd'' (year_of (upper c)) (upper c) else skip)
    (seq (if wants source ''ubuntu''
          then probe_direct fs root ''ubuntu'' (year_of (upper c)) (upper c) else skip)
    (seq (if wants source ''debian''
          then probe_direct fs root ''debian'' (year_of (upper c)) (upper c) else skip)
    (seq (if wants source ''ghsa'' then search_ghsa fs root (upper c) else skip)
         (if source = None \<or> lower (the source) \<in> set other_sources
          then search_others fs root (upper c) source else skip))))"
  using assms year_of_valid [OF assms] by (simp add: find_cve_file_def Let_def)


lemma search_others_named:
  "lower s = d \<Longrightarrow> d \<noteq> [] \<Longrightarrow> search_others fs root c (Some s) = scan_sources fs root c [d]"
  by (auto simp: search_others_def lower_def)

lemma find_cve_file_filtered:
  assumes valid: "startswith (upper c) ''CVE-''"
  shows "find_cve_file fs root c (Some source)
        = (case find (\<lambda>r. fst r = lower source) source_roots of
             None \<Rightarrow> ([], Inr None)
           | Some r \<Rightarrow> probe fs root (year_of (upper c)) (upper c) r)"
proof -
  have "lower source = ''nvd'' \<or> lower source = ''ubuntu'' \<or> lower source = ''debian''
      \<or> lower source = ''ghsa'' \<or> lower source = ''alpine'' \<or> lower source = ''amazon''
      \<or> lower source = ''oracle'' \<or> lower source = ''photon'' \<or> lower source = ''redhat''
      \<or> lower source = ''suse'' \<or> lower source \<notin> set (map fst source_roots)"
    by (auto simp: source_roots_def)
  then show ?thesis
    by (elim disjE)
       (auto simp add: find_cve_file_valid [OF valid] wants_def source_roots_def other_sources_def
          search_others_named seq_nil_left seq_nil_right skip_def
          simp del: scan_sources.simps)
qed



text \<open>
  C1, as stated, fails: \<open>CVE-2022\<close> has no sequence part, so it does not have the shape
  \<open>CVE-<year>-<sequence>\<close>, yet the resolver prints no error, probes the file system and
  returns the file when it exists.
\<close>

theorem find_cve_file_accepts_prefix_only:
  "\<not> cve_shape ''CVE-2022''
   \<and> find_cve_file fs_full ''/repo'' ''CVE-2022'' None
       = ([Exists ''/repo/nvd/2022/CVE-2022.json''], Inr (Some ''/repo/nvd/2022/CVE-2022.json''))
   \<and> find_cve_file fs_empty ''/repo'' ''CVE-2022'' (Some ''nvd'')
       = ([Exists ''/repo/nvd/2022/CVE-2022.json''], Inr None)"
  by (simp add: cve_shape_def find_cve_file_def fs_full_def fs_empty_def Let_def wants_def
      probe_direct_def seq_found seq_fall seq_skip_left emit_pair skip_def
      other_sources_def string_ops)

text \<open>
  C1, amended. A query whose uppercased form does not start with \<open>CVE-\<close> is rejected
  with the invalid-format message and no location, and the trace holds no file system
  event; \<open>not-a-cve\<close> is such a query.
\<close>

theorem find_cve_file_rejects_other_prefix:
  "(\<not> startswith (upper cve_id) ''CVE-''
      \<longrightarrow> find_cve_file fs repo_root cve_id source = ([Print InvalidFormat], Inr None)
          \<and> filter is_fs_event (fst (find_cve_file fs repo_root cve_id source)) = [])
   \<and> find_cve_file fs repo_root ''not-a-cve'' None = ([Print InvalidFormat], Inr None)"
  by (simp add: find_cve_file_def upper_def upper_char_def startswith_def)

text \<open>
  The amended statement at the query \<open>2022-1664\<close>, with a source filter, on the full
  file system.
\<close>

theorem find_cve_file_rejects_other_prefix_witness:
  "\<not> startswith (upper ''2022-1664'') ''CVE-''
   \<and> find_cve_file fs_full ''/repo'' ''2022-1664'' (Some ''nvd'') = ([Print InvalidFormat], Inr None)"
  using find_cve_file_rejects_other_prefix [of "''2022-1664''" fs_full "''/repo''" "Some ''nvd''"]
  by (simp add: upper_def upper_char_def startswith_def)



text \<open>
  C5. With a source filter the resolver runs the search of the one root the filter names
  (compared in lower case) and nothing else; a filter \<open>nvd\<close> with no \<open>nvd\<close> file gives
  not-found after the one probe; a filter that names no known root gives not-found,
  raises nothing and touches no file.
\<close>

theorem find_cve_file_source_filter:
  "(startswith (upper cve_id) ''CVE-'' \<longrightarrow>
      find_cve_file fs repo_root cve_id (Some source)
        = (case find (\<lambda>r. fst r = lower source) source_roots of
             None \<Rightarrow> ([], Inr None)
           | Some r \<Rightarrow> probe fs repo_root (year_of (upper cve_id)) (upper cve_id) r))
   \<and> (startswith (upper cve_id) ''CVE-'' \<and> lower source = ''nvd''
        \<and> \<not> fs_exists fs (direct_path repo_root ''nvd'' (year_of (upper cve_id)) (upper cve_id))
      \<longrightarrow> find_cve_file fs repo_root cve_id (Some source)
            = ([Exists (direct_path repo_root ''nvd'' (year_of (upper cve_id)) (upper cve_id))],
               Inr None))
   \<and> (lower source \<notin> set (map fst source_roots)
      \<longrightarrow> snd (find_cve_file fs repo_root cve_id (Some source)) = Inr None
          \<and> filter is_fs_event (fst (find_cve_file fs repo_root cve_id (Some source))) = [])"
proof (intro conjI impI)
  assume valid: "startswith (upper cve_id) ''CVE-''"
  show "find_cve_file fs repo_root cve_id (Some source)
        = (case find (\<lambda>r. fst r = lower source) source_roots of
             None \<Rightarrow> ([], Inr None)
           | Some r \<Rightarrow> probe fs repo_root (year_of (upper cve_id)) (upper cve_id) r)"
    by (rule find_cve_file_filtered [OF valid])
next
  assume "startswith (upper cve_id) ''CVE-'' \<and> lower source = ''nvd''
        \<and> \<not> fs_exists fs (direct_path repo_root ''nvd'' (year_of (upper cve_id)) (upper cve_id))"
  then show "find_cve_file fs repo_root cve_id (Some source)
            = ([Exists (direct_path repo_root ''nvd'' (year_of (upper cve_id)) (upper cve_id))],
               Inr None)"
    by (simp add: find_cve_file_valid wants_def other_sources_def probe_direct_def
        seq_nil_left seq_nil_right seq_fall emit_pair skip_def)
next
  assume unknown: "lower source \<notin> set (map fst source_roots)"
  show "snd (find_cve_file fs repo_root cve_id (Some source)) = Inr None"
  proof (cases "startswith (upper cve_id) ''CVE-''")
    case True
    with unknown show ?thesis
      by (simp add: find_cve_file_valid wants_def source_roots_def other_sources_def
          seq_nil_left skip_def)
  next
    case False
    then show ?thesis
      by (simp add: find_cve_file_def)
  qed
  show "filter is_fs_event (fst (find_cve_file fs repo_root cve_id (Some source))) = []"
  proof (cases "startswith (upper cve_id) ''CVE-''")
    case True
    with unknown show ?thesis
      by (simp add: find_cve_file_valid wants_def source_roots_def other_sources_def
          seq_nil_left skip_def)
  next
    case False
    then show ?thesis
      by (simp add: find_cve_file_def)
  qed
qed

text \<open>
  \<open>CVE-2099-0001\<close> with the filter \<open>nvd\<close> where only the other roots hold the file, and
  with the unknown filter \<open>osv\<close>.
\<close>

theorem find_cve_file_source_filter_witness:
  "startswith (upper ''CVE-2099-0001'') ''CVE-'' \<and> lower ''nvd'' = ''nvd''
   \<and> \<not> fs_exists fs_without_nvd ''/repo/nvd/2099/CVE-2099-0001.json''
   \<and> fs_exists fs_without_nvd ''/repo/ubuntu/2099/CVE-2099-0001.json''
   \<and> find_cve_file fs_without_nvd ''/repo'' ''CVE-2099-0001'' (Some ''nvd'')
       = ([Exists ''/repo/nvd/2099/CVE-2099-0001.json''], Inr None)
   \<and> lower ''osv'' \<notin> set (map fst source_roots)
   \<and> snd (find_cve_file fs_full ''/repo'' ''CVE-2099-0001'' (Some ''osv'')) = Inr None
   \<and> fst (find_cve_file fs_full ''/repo'' ''CVE-2099-0001'' (Some ''osv'')) = []"
proof -
  have valid: "startswith (upper ''CVE-2099-0001'') ''CVE-''" and nvd: "lower ''nvd'' = ''nvd''"
    by (simp_all add: string_ops)
  have path: "direct_path ''/repo'' ''nvd'' (year_of (upper ''CVE-2099-0001'')) (upper ''CVE-2099-0001'')
      = ''/repo/nvd/2099/CVE-2099-0001.json''"
    by (simp add: string_ops)
  have absent: "\<not> fs_exists fs_without_nvd ''/repo/nvd/2099/CVE-2099-0001.json''"
    and present: "fs_exists fs_without_nvd ''/repo/ubuntu/2099/CVE-2099-0001.json''"
    by (simp_all add: fs_without_nvd_def fs_full_def startswith_def)
  have unknown: "lower ''osv'' \<notin> set (map fst source_roots)"
    by (simp add: source_roots_def lower_def lower_char_def)
  have osv: "find (\<lambda>r. fst r = lower ''osv'') source_roots = None"
    by (simp add: source_roots_def lower_def lower_char_def)
  from find_cve_file_source_filter [of "''CVE-2099-0001''" fs_without_nvd "''/repo''" "''nvd''"]
    valid nvd absent
  have a: "find_cve_file fs_without_nvd ''/repo'' ''CVE-2099-0001'' (Some ''nvd'')
       = ([Exists ''/repo/nvd/2099/CVE-2099-0001.json''], Inr None)"
    unfolding path by blast
  from find_cve_file_source_filter [of "''CVE-2099-0001''" fs_full "''/repo''" "''osv''"]
    valid unknown osv
  have b: "snd (find_cve_file fs_full ''/repo'' ''CVE-2099-0001'' (Some ''osv'')) = Inr None"
    and c: "fst (find_cve_file fs_full ''/repo'' ''CVE-2099-0001'' (Some ''osv'')) = []"
    by simp_all
  from valid nvd absent present a unknown b c show ?thesis
    by blast
qed

section \<open>The advisory matcher\<close>







section \<open>The record loader\<close>

lemma dict_set_lookup: "map_of (dict_set kvs key v) key = Some v"
  by (induction kvs) auto

text \<open>
  C9. The label chosen by \<open>get_cve_info\<close> is the label of the first name of the priority
  list \<open>nvd, ghsa, alpine, debian, ubuntu, amazon, oracle, photon, redhat, suse\<close> that
  occurs in the path; when the resolver returns a path and the file loads as a record,
  the result is that record with \<open>_source\<close> set to the label; a path with \<open>nvd\<close> in it
  gets the NVD label whatever else it contains, and a path with none of the names gets
  \<open>Unknown Source\<close>.
\<close>

theorem get_cve_info_provenance:
  "source_label path = label_by_priority path
   \<and> (find_cve_file fs repo_root cve_id source = (t, Inr (Some path)) \<and> path \<noteq> []
        \<and> fs_load fs path = Inr (JObj kvs)
      \<longrightarrow> get_cve_info fs repo_root cve_id source
            = (t @ [Open path],
               Inr (Some (JObj (dict_set kvs ''_source'' (JStr (label_by_priority path))))))
          \<and> map_of (dict_set kvs ''_source'' (JStr (label_by_priority path))) ''_source''
            = Some (JStr (label_by_priority path)))
   \<and> (str_contains path ''nvd'' \<longrightarrow> label_by_priority path = ''NVD (National Vulnerability Database)'')
   \<and> (list_all (\<lambda>row. \<not> str_contains path (fst row)) provenance_table
      \<longrightarrow> label_by_priority path = ''Unknown Source'')"
proof (intro conjI impI)
  show "source_label path = label_by_priority path"
    by (simp add: source_label_def label_by_priority_def provenance_table_def)
next
  assume "find_cve_file fs repo_root cve_id source = (t, Inr (Some path)) \<and> path \<noteq> []
        \<and> fs_load fs path = Inr (JObj kvs)"
  then show "get_cve_info fs repo_root cve_id source
            = (t @ [Open path],
               Inr (Some (JObj (dict_set kvs ''_source'' (JStr (label_by_priority path))))))"
    by (simp add: get_cve_info_def source_label_def label_by_priority_def provenance_table_def)
next
  show "map_of (dict_set kvs ''_source'' (JStr (label_by_priority path))) ''_source''
            = Some (JStr (label_by_priority path))"
    by (rule dict_set_lookup)
next
  assume "str_contains path ''nvd''"
  then show "label_by_priority path = ''NVD (National Vulnerability Database)''"
    by (simp add: label_by_priority_def provenance_table_def)
next
  assume "list_all (\<lambda>row. \<not> str_contains path (fst row)) provenance_table"
  then show "label_by_priority path = ''Unknown Source''"
    by (simp add: label_by_priority_def provenance_table_def)
qed

text \<open>
  A record found under \<open>nvd\<close>, a path with no known name, and a path with two.
\<close>

theorem get_cve_info_provenance_witness:
  "find_cve_file fs_full ''/repo'' ''CVE-2022-1664'' None
     = ([Exists ''/repo/nvd/2022/CVE-2022-1664.json''],
        Inr (Some ''/repo/nvd/2022/CVE-2022-1664.json''))
   \<and> fs_load fs_full ''/repo/nvd/2022/CVE-2022-1664.json'' = Inr (JObj advisory_fields)
   \<and> get_cve_info fs_full ''/repo'' ''CVE-2022-1664'' None
     = ([Exists ''/repo/nvd/2022/CVE-2022-1664.json'', Open ''/repo/nvd/2022/CVE-2022-1664.json''],
        Inr (Some (JObj (advisory_fields
                         @ [(''_source'', JStr ''NVD (National Vulnerability Database)'')]))))
   \<and> list_all (\<lambda>row. \<not> str_contains ''/srv/mirror/CVE-2022-1664.json'' (fst row)) provenance_table
   \<and> source_label ''/srv/mirror/CVE-2022-1664.json'' = ''Unknown Source''
   \<and> source_label ''/repo/ubuntu/nvd-import/CVE-2022-1664.json''
     = ''NVD (National Vulnerability Database)''"
proof -
  let ?p = "''/repo/nvd/2022/CVE-2022-1664.json''"
  have found: "find_cve_file fs_full ''/repo'' ''CVE-2022-1664'' None = ([Exists ?p], Inr (Some ?p))"
    by (simp add: find_cve_file_def fs_full_def Let_def wants_def probe_direct_def seq_found
        startswith_def string_ops)
  have loaded: "fs_load fs_full ?p = Inr (JObj advisory_fields)"
    by (simp add: fs_full_def advisory_example_def)
  have nvd: "str_contains ?p ''nvd''"
    by (simp add: startswith_def)
  have nvd2: "str_contains ''/repo/ubuntu/nvd-import/CVE-2022-1664.json'' ''nvd''"
    by (simp add: startswith_def)
  have unknown: "list_all (\<lambda>row. \<not> str_contains ''/srv/mirror/CVE-2022-1664.json'' (fst row))
      provenance_table"
    by (simp add: provenance_table_def startswith_def)
  have set: "dict_set advisory_fields ''_source'' (JStr ''NVD (National Vulnerability Database)'')
      = advisory_fields @ [(''_source'', JStr ''NVD (National Vulnerability Database)'')]"
    by (simp add: advisory_fields_def)
  note a = get_cve_info_provenance [where path = ?p and fs = fs_full and repo_root = "''/repo''"
      and cve_id = "''CVE-2022-1664''" and source = None and t = "[Exists ?p]"
      and kvs = advisory_fields]
  have nonempty: "?p \<noteq> []"
    by simp
  from a nvd have label: "label_by_priority ?p = ''NVD (National Vulnerability Database)''"
    by blast
  from a found loaded nonempty
  have "get_cve_info fs_full ''/repo'' ''CVE-2022-1664'' None
     = ([Exists ?p] @ [Open ?p],
        Inr (Some (JObj (dict_set advisory_fields ''_source'' (JStr (label_by_priority ?p))))))"
    by blast
  then have got: "get_cve_info fs_full ''/repo'' ''CVE-2022-1664'' None
     = ([Exists ?p, Open ?p],
        Inr (Some (JObj (advisory_fields
                         @ [(''_source'', JStr ''NVD (National Vulnerability Database)'')]))))"
    by (simp only: label set append.simps)
  from get_cve_info_provenance [where path = "''/srv/mirror/CVE-2022-1664.json''"] unknown
  have u: "source_label ''/srv/mirror/CVE-2022-1664.json'' = ''Unknown Source''"
    by metis
  from get_cve_info_provenance [where path = "''/repo/ubuntu/nvd-import/CVE-2022-1664.json''"] nvd2
  have n: "source_label ''/repo/ubuntu/nvd-import/CVE-2022-1664.json''
     = ''NVD (National Vulnerability Database)''"
    by metis
  from found loaded got unknown u n show ?thesis
    by blast
qed

section \<open>The writer\<close>

lemma process_entry_failed:
  "entry_paths base e = Inl err \<Longrightarrow> process_entry env base st e = st"
  by (simp add: process_entry_def)

lemma process_entry_located:
  "entry_paths base e = Inr (d, p) \<Longrightarrow>
   process_entry env base st e =
     (if \<not> can_makedirs env d \<or> p \<in> created_files st then st
      else if files st p = Some (dumps env e) \<and> can_read env p
      then st\<lparr>created_files := insert p (created_files st),
              unchanged_count := unchanged_count st + 1\<rparr>
      else if \<not> can_write env p then st
      else st\<lparr>files := (files st)(p \<mapsto> dumps env e),
              created_files := insert p (created_files st),
              file_count := file_count st + 1,
              written := written st @ [p]\<rparr>)"
  by (auto simp: process_entry_def Let_def)

lemma process_entry_cases:
  obtains (failed) err where "entry_paths base e = Inl err"
  | (skipped) d p where "entry_paths base e = Inr (d, p)"
      "\<not> can_makedirs env d \<or> p \<in> created_files st"
  | (unchanged) d p where "entry_paths base e = Inr (d, p)"
      "can_makedirs env d" "p \<notin> created_files st"
      "files st p = Some (dumps env e)" "can_read env p"
  | (refused) d p where "entry_paths base e = Inr (d, p)"
      "can_makedirs env d" "p \<notin> created_files st"
      "\<not> (files st p = Some (dumps env e) \<and> can_read env p)" "\<not> can_write env p"
  | (wrote) d p where "entry_paths base e = Inr (d, p)"
      "can_makedirs env d" "p \<notin> created_files st"
      "\<not> (files st p = Some (dumps env e) \<and> can_read env p)" "can_write env p"
proof (cases "entry_paths base e")
  case (Inl err)
  then show ?thesis by (rule failed)
next
  case (Inr dp)
  then obtain d p where "entry_paths base e = Inr (d, p)"
    by (cases dp) simp
  with skipped unchanged refused wrote show ?thesis
    by blast
qed

lemma process_entry_counted_once:
  "counted_once st \<Longrightarrow> counted_once (process_entry env base st e)"
  using process_entry_cases [where base = base and e = e and env = env and st = st]
  by cases (auto simp: counted_once_def process_entry_failed process_entry_located)

lemma process_entries_counted_once:
  "counted_once st \<Longrightarrow> counted_once (process_entries env base st es)"
  by (induction es arbitrary: st) (auto simp: process_entry_counted_once)

lemma process_entry_created:
  "created_files (process_entry env base st e)
     \<subseteq> created_files st \<union> set_option (file_path_of base e)"
  using process_entry_cases [where base = base and e = e and env = env and st = st]
  by cases (auto simp: file_path_of_def process_entry_failed process_entry_located)

lemma process_entries_created:
  "created_files (process_entries env base st es)
     \<subseteq> created_files st \<union> set (List.map_filter (file_path_of base) es)"
proof (induction es arbitrary: st)
  case Nil
  then show ?case by simp
next
  case (Cons e es)
  from Cons [of "process_entry env base st e"] process_entry_created [of env base st e]
  show ?case
    by (cases "file_path_of base e") (auto simp: List.map_filter_simps)
qed






lemmas writer_ops =
  entry_paths_def parse_os_name_tokens py_split_def is_space_def path_join_def join2_eval

lemma row_a_paths: "entry_paths ''./'' row_a = Inr (''./tuxcare/AlmaLinux/9.2/ESU/2025'', path_a)"
  by (simp add: row_a_def path_a_def writer_ops)

lemma row_b_paths: "entry_paths ''./'' row_b = Inr (''./tuxcare/AlmaLinux/9.2/ESU/2025'', path_a)"
  by (simp add: row_b_def path_a_def writer_ops)

lemma initial_counted_once:
  "counted_once \<lparr>files = disk, created_files = {}, file_count = 0, unchanged_count = 0, written = []\<rparr>"
  by (simp add: counted_once_def)

lemma create_json_files_counted_once: "counted_once (create_json_files env data base disk)"
  unfolding create_json_files_def
  by (rule process_entries_counted_once [OF initial_counted_once])

lemma create_json_files_created:
  "created_files (create_json_files env data base disk) \<subseteq> set (List.map_filter (file_path_of base) data)"
  using process_entries_created [of env base
      "\<lparr>files = disk, created_files = {}, file_count = 0, unchanged_count = 0, written = []\<rparr>" data]
  by (simp add: create_json_files_def)

text \<open>
  C8. An entry whose path is already in \<open>created_files\<close> changes nothing: no write, no
  counter. An entry that changes anything puts its path there. So in one batch the
  paths written are distinct, \<open>file_count\<close> is their number, the two counters together
  count each tracked path once, the tracked paths are canonical paths of the batch, and
  two rows with one canonical path count as at most one created file.
\<close>

theorem create_json_files_path_once:
  "(entry_paths base_dir entry = Inr (dir_path, file_path) \<and> file_path \<in> created_files st
      \<longrightarrow> process_entry env base_dir st entry = st)
   \<and> (entry_paths base_dir entry = Inr (dir_path, file_path)
        \<and> process_entry env base_dir st entry \<noteq> st
      \<longrightarrow> file_path \<in> created_files (process_entry env base_dir st entry))
   \<and> distinct (written (create_json_files env data base_dir disk))
   \<and> file_count (create_json_files env data base_dir disk)
       = length (written (create_json_files env data base_dir disk))
   \<and> file_count (create_json_files env data base_dir disk)
       + unchanged_count (create_json_files env data base_dir disk)
       = card (created_files (create_json_files env data base_dir disk))
   \<and> created_files (create_json_files env data base_dir disk)
       \<subseteq> set (List.map_filter (file_path_of base_dir) data)
   \<and> (entry_paths base_dir e1 = Inr (d1, p) \<and> entry_paths base_dir e2 = Inr (d2, p)
      \<longrightarrow> file_count (create_json_files env [e1, e2] base_dir disk) \<le> 1)"
proof (intro conjI impI)
  assume "entry_paths base_dir entry = Inr (dir_path, file_path) \<and> file_path \<in> created_files st"
  then show "process_entry env base_dir st entry = st"
    by (simp add: process_entry_located)
next
  assume "entry_paths base_dir entry = Inr (dir_path, file_path)
        \<and> process_entry env base_dir st entry \<noteq> st"
  then show "file_path \<in> created_files (process_entry env base_dir st entry)"
    by (auto simp: process_entry_located split: if_splits)
next
  let ?st = "create_json_files env data base_dir disk"
  have inv: "counted_once ?st"
    by (rule create_json_files_counted_once)
  then show "distinct (written ?st)" "file_count ?st = length (written ?st)"
    "file_count ?st + unchanged_count ?st = card (created_files ?st)"
    by (simp_all add: counted_once_def)
  show "created_files ?st \<subseteq> set (List.map_filter (file_path_of base_dir) data)"
    by (rule create_json_files_created)
next
  let ?st = "create_json_files env [e1, e2] base_dir disk"
  assume "entry_paths base_dir e1 = Inr (d1, p) \<and> entry_paths base_dir e2 = Inr (d2, p)"
  then have "set (List.map_filter (file_path_of base_dir) [e1, e2]) = {p}"
    by (simp add: List.map_filter_simps file_path_of_def)
  with create_json_files_created [of env "[e1, e2]" base_dir disk]
  have "created_files ?st \<subseteq> {p}"
    by simp
  then have "card (created_files ?st) \<le> card {p}"
    by (intro card_mono) auto
  moreover have "file_count ?st + unchanged_count ?st = card (created_files ?st)"
    using create_json_files_counted_once [of env "[e1, e2]" base_dir disk]
    by (simp add: counted_once_def)
  ultimately show "file_count ?st \<le> 1"
    by simp
qed

text \<open>
  Two rows with one canonical path and different content: one write, of the first row.
\<close>

theorem create_json_files_path_once_witness:
  "entry_paths ''./'' row_a = Inr (''./tuxcare/AlmaLinux/9.2/ESU/2025'', path_a)
   \<and> entry_paths ''./'' row_b = Inr (''./tuxcare/AlmaLinux/9.2/ESU/2025'', path_a)
   \<and> dumps env_ok row_a \<noteq> dumps env_ok row_b
   \<and> file_count (create_json_files env_ok [row_a, row_b] ''./'' Map.empty) \<le> 1
   \<and> written (create_json_files env_ok [row_a, row_b] ''./'' Map.empty) = [path_a]
   \<and> files (create_json_files env_ok [row_a, row_b] ''./'' Map.empty) path_a = Some (dumps env_ok row_a)"
proof -
  have differ: "dumps env_ok row_a \<noteq> dumps env_ok row_b"
    by (simp add: env_ok_def example_dumps_def row_a_def row_b_def)
  from create_json_files_path_once [where base_dir = "''./''" and ?e1.0 = row_a and ?e2.0 = row_b
      and env = env_ok and disk = Map.empty and p = path_a
      and ?d1.0 = "''./tuxcare/AlmaLinux/9.2/ESU/2025''"
      and ?d2.0 = "''./tuxcare/AlmaLinux/9.2/ESU/2025''"]
    row_a_paths row_b_paths
  have once: "file_count (create_json_files env_ok [row_a, row_b] ''./'' Map.empty) \<le> 1"
    by blast
  have run: "written (create_json_files env_ok [row_a, row_b] ''./'' Map.empty) = [path_a]"
    "files (create_json_files env_ok [row_a, row_b] ''./'' Map.empty) path_a
       = Some (dumps env_ok row_a)"
    by (simp_all add: create_json_files_def process_entry_located [OF row_a_paths]
        process_entry_located [OF row_b_paths] env_ok_def)
  from row_a_paths row_b_paths differ once run show ?thesis
    by blast
qed




end
